theory Spec2Isabelle
  imports Main "HOL-Library.Word"
begin

section \<open>Package msg: data model\<close>

text \<open>
  Fixed-size byte arrays are words of the same width: \<open>Key\<close> is Go's \<open>[32]byte\<close>,
  \<open>Nonce\<close> is \<open>[12]byte\<close> (read little-endian, so that curve25519.Basepoint, the byte 9
  followed by 31 zero bytes, is the number 9). \<open>Type\<close> is \<open>uint8\<close>. A Go \<open>error\<close> is its
  message.
\<close>

type_synonym byte = "8 word"
type_synonym Key = "256 word"
type_synonym Nonce = "96 word"
type_synonym Type = "8 word"
type_synonym Version = string
type_synonym Protocol = string
type_synonym error = string

definition Version1 :: Version where
  "Version1 = ''taiga_v1_alpha''"

definition TypeData :: Type where
  "TypeData = 1"

definition TypeHandshake :: Type where
  "TypeHandshake = 2"

definition TypeHandshakeAck :: Type where
  "TypeHandshakeAck = 3"

record Handshake =
  ClientPublicKey :: Key

record HandshakeAck =
  Success :: bool
  Message :: string

record NextHop =
  PublicKey :: Key
  Protocol :: Protocol
  Endpoint :: string

text \<open>A pointer field that may be nil (\<open>NextHop *NextHop\<close>) is an option.\<close>

record Msg =
  Flags :: "32 word"
  Timestamp :: "64 word"
  NextHop :: "NextHop option"
  Data :: "byte list"

record Header =
  Version :: Version
  Type :: Type
  EphemeralKey :: Key
  Nonce :: Nonce

text \<open>
  \<open>RawMsg.Header\<close> has type \<open>*Header\<close>: whatever fills a RawMsg from wire bytes may leave
  it nil, so it is an option here, and reading a field through it when it is nil is a
  run-time panic of the Go program. (The program relies on the codec decoding a pointer as
  nil: every Data body travels with a nil NextHop, and is written to the TUN device only if
  NextHop is nil after Unmarshal.)
\<close>

record RawMsg =
  rm_Header :: "Header option"
  rm_Body :: "byte list"

text \<open>
  A CookedMsg is only ever built by DecryptBody, from a header it has already read
  through and a freshly allocated Msg: both pointers are non-nil there.
\<close>

record CookedMsg =
  cm_Header :: Header
  cm_Body :: Msg

record Encoder =
  NodePublicKey :: Key
  enc_Version :: Version

record Decoder =
  PrivateKey :: Key
  dec_Version :: Version

text \<open>
  A call of the program either returns (for a function with an error result: a value or
  an error) or panics.
\<close>

datatype 'a outcome = Returns 'a | Panics string

definition nil_dereference :: string where
  "nil_dereference = ''invalid memory address or nil pointer dereference''"

section \<open>The libraries the package is written against\<close>

text \<open>
  The program calls four third-party packages: curve25519 (X25519), sha256 (Sum256),
  chacha20poly1305 (New, and Seal and Open of the AEAD it returns) and the reflection-based
  codec binary (Marshal, Unmarshal; one pair for each Go type the program passes). They are
  a parameter \<open>L\<close> of every function below; \<open>lib_ok\<close> states the part of their contract
  the round-trip law rests on.
\<close>

record AEAD =
  Seal :: "Nonce \<Rightarrow> byte list \<Rightarrow> byte list"
  Open :: "Nonce \<Rightarrow> byte list \<Rightarrow> error + byte list"

record Lib =
  X25519 :: "Key \<Rightarrow> Key \<Rightarrow> error + Key"
  Sum256 :: "Key \<Rightarrow> Key"
  New :: "Key \<Rightarrow> error + AEAD"
  Marshal_Msg :: "Msg \<Rightarrow> error + byte list"
  Unmarshal_Msg :: "byte list \<Rightarrow> error + Msg"
  Marshal_Handshake :: "Handshake \<Rightarrow> error + byte list"
  Unmarshal_Handshake :: "byte list \<Rightarrow> error + Handshake"
  Marshal_HandshakeAck :: "HandshakeAck \<Rightarrow> error + byte list"
  Unmarshal_HandshakeAck :: "byte list \<Rightarrow> error + HandshakeAck"
  Marshal_RawMsg :: "RawMsg \<Rightarrow> error + byte list"
  Unmarshal_RawMsg :: "byte list \<Rightarrow> error + RawMsg"

definition Basepoint :: Key where
  "Basepoint = 9"

text \<open>\<open>fmt.Errorf("msg: %w", err)\<close>.\<close>

definition wrap :: "string \<Rightarrow> error \<Rightarrow> error" where
  "wrap msg err = msg @ '': '' @ err"

section \<open>Package msg: operations\<close>

definition NewEncoder :: "Key \<Rightarrow> Encoder" where
  "NewEncoder nodePublicKey = \<lparr>NodePublicKey = nodePublicKey, enc_Version = Version1\<rparr>"

definition NewDecoder :: "Key \<Rightarrow> Decoder" where
  "NewDecoder privateKey = \<lparr>PrivateKey = privateKey, dec_Version = Version1\<rparr>"

text \<open>
  \<open>rand.Read\<close> is the program's only source of randomness. Its outcome is an argument:
  \<open>Inr k\<close> when it filled the array with \<open>k\<close>, \<open>Inl err\<close> when it returned an error.
\<close>

definition GenerateKeyPair :: "Lib \<Rightarrow> error + Key \<Rightarrow> error + Key \<times> Key" where
  "GenerateKeyPair L rnd =
     (case rnd of
        Inl err \<Rightarrow> Inl (wrap ''failed to generate private key'' err)
      | Inr privateKey \<Rightarrow>
          (case X25519 L privateKey Basepoint of
             Inl err \<Rightarrow> Inl (wrap ''failed to derive public key'' err)
           | Inr pub \<Rightarrow> Inr (privateKey, pub)))"

definition PublicKeyFromPrivate :: "Lib \<Rightarrow> Key \<Rightarrow> error + Key" where
  "PublicKeyFromPrivate L privateKey =
     (case X25519 L privateKey Basepoint of
        Inl err \<Rightarrow> Inl (wrap ''failed to derive public key'' err)
      | Inr pub \<Rightarrow> Inr pub)"

text \<open>
  EncryptMsg, EncryptHandshake and EncryptHandshakeAck are the same sequence of calls;
  they differ in the body's codec, in the header's type and in one error message. The
  sequence is written once, \<open>seal_body\<close>, with those three as arguments; the order of
  the calls, and so of the error returns, is the source's.
\<close>

definition seal_body ::
  "Lib \<Rightarrow> Encoder \<Rightarrow> error + Key \<Rightarrow> error + Nonce \<Rightarrow> error + byte list \<Rightarrow> string \<Rightarrow> Type
     \<Rightarrow> error + RawMsg" where
  "seal_body L e rnd_key rnd_nonce marshalled what ty =
     (case rnd_key of
        Inl err \<Rightarrow> Inl (wrap ''failed to generate ephemeral key'' err)
      | Inr ephemeralPrivate \<Rightarrow>
     (case X25519 L ephemeralPrivate Basepoint of
        Inl err \<Rightarrow> Inl (wrap ''failed to compute ephemeral public key'' err)
      | Inr ephemeralPublic \<Rightarrow>
     (case X25519 L ephemeralPrivate (NodePublicKey e) of
        Inl err \<Rightarrow> Inl (wrap ''failed to compute shared secret'' err)
      | Inr sharedSecret \<Rightarrow>
     (let encKey = Sum256 L sharedSecret in
     (case rnd_nonce of
        Inl err \<Rightarrow> Inl (wrap ''failed to generate nonce'' err)
      | Inr nonce \<Rightarrow>
     (case New L encKey of
        Inl err \<Rightarrow> Inl (wrap ''failed to create cipher'' err)
      | Inr cipher \<Rightarrow>
     (case marshalled of
        Inl err \<Rightarrow> Inl (wrap (''failed to marshal '' @ what) err)
      | Inr data \<Rightarrow>
          Inr \<lparr>rm_Header = Some \<lparr>Version = enc_Version e, Type = ty,
                                   EphemeralKey = ephemeralPublic, Nonce = nonce\<rparr>,
               rm_Body = Seal cipher nonce data\<rparr>)))))))"

definition EncryptMsg ::
  "Lib \<Rightarrow> Encoder \<Rightarrow> error + Key \<Rightarrow> error + Nonce \<Rightarrow> Msg \<Rightarrow> error + RawMsg" where
  "EncryptMsg L e rnd_key rnd_nonce msg =
     seal_body L e rnd_key rnd_nonce (Marshal_Msg L msg) ''message'' TypeData"

definition EncryptHandshake ::
  "Lib \<Rightarrow> Encoder \<Rightarrow> error + Key \<Rightarrow> error + Nonce \<Rightarrow> Handshake \<Rightarrow> error + RawMsg" where
  "EncryptHandshake L e rnd_key rnd_nonce hs =
     seal_body L e rnd_key rnd_nonce (Marshal_Handshake L hs) ''handshake'' TypeHandshake"

definition EncryptHandshakeAck ::
  "Lib \<Rightarrow> Encoder \<Rightarrow> error + Key \<Rightarrow> error + Nonce \<Rightarrow> HandshakeAck \<Rightarrow> error + RawMsg" where
  "EncryptHandshakeAck L e rnd_key rnd_nonce ack =
     seal_body L e rnd_key rnd_nonce (Marshal_HandshakeAck L ack) ''ack'' TypeHandshakeAck"

text \<open>
  The three decrypt operations share their first four steps, \<open>open_body\<close>: read the
  ephemeral key through the header pointer, derive the key, create the cipher, open the
  body. No step reads the header's version or type, nor the decoder's Version field.
\<close>

definition open_body :: "Lib \<Rightarrow> Decoder \<Rightarrow> RawMsg \<Rightarrow> string \<Rightarrow> (error + byte list) outcome" where
  "open_body L d rawMsg what =
     (case rm_Header rawMsg of
        None \<Rightarrow> Panics nil_dereference
      | Some header \<Rightarrow>
     (case X25519 L (PrivateKey d) (EphemeralKey header) of
        Inl err \<Rightarrow> Returns (Inl (wrap ''failed to compute shared secret'' err))
      | Inr sharedSecret \<Rightarrow>
     (let encKey = Sum256 L sharedSecret in
     (case New L encKey of
        Inl err \<Rightarrow> Returns (Inl (wrap ''failed to create cipher'' err))
      | Inr cipher \<Rightarrow>
     (case Open cipher (Nonce header) (rm_Body rawMsg) of
        Inl err \<Rightarrow> Returns (Inl (wrap (''failed to decrypt '' @ what) err))
      | Inr data \<Rightarrow> Returns (Inr data))))))"

definition DecryptBody :: "Lib \<Rightarrow> Decoder \<Rightarrow> RawMsg \<Rightarrow> (error + CookedMsg) outcome" where
  "DecryptBody L d rawMsg =
     (case open_body L d rawMsg ''body'' of
        Panics p \<Rightarrow> Panics p
      | Returns (Inl err) \<Rightarrow> Returns (Inl err)
      | Returns (Inr data) \<Rightarrow>
          (case Unmarshal_Msg L data of
             Inl err \<Rightarrow> Returns (Inl (wrap ''failed to unmarshal message'' err))
           | Inr msg \<Rightarrow>
               (case rm_Header rawMsg of
                  None \<Rightarrow> Panics nil_dereference
                | Some header \<Rightarrow> Returns (Inr \<lparr>cm_Header = header, cm_Body = msg\<rparr>))))"

definition DecryptHandshake :: "Lib \<Rightarrow> Decoder \<Rightarrow> RawMsg \<Rightarrow> (error + Handshake) outcome" where
  "DecryptHandshake L d rawMsg =
     (case open_body L d rawMsg ''handshake'' of
        Panics p \<Rightarrow> Panics p
      | Returns (Inl err) \<Rightarrow> Returns (Inl err)
      | Returns (Inr data) \<Rightarrow>
          (case Unmarshal_Handshake L data of
             Inl err \<Rightarrow> Returns (Inl (wrap ''failed to unmarshal handshake'' err))
           | Inr hs \<Rightarrow> Returns (Inr hs)))"

definition DecryptHandshakeAck :: "Lib \<Rightarrow> Decoder \<Rightarrow> RawMsg \<Rightarrow> (error + HandshakeAck) outcome" where
  "DecryptHandshakeAck L d rawMsg =
     (case open_body L d rawMsg ''ack'' of
        Panics p \<Rightarrow> Panics p
      | Returns (Inl err) \<Rightarrow> Returns (Inl err)
      | Returns (Inr data) \<Rightarrow>
          (case Unmarshal_HandshakeAck L data of
             Inl err \<Rightarrow> Returns (Inl (wrap ''failed to unmarshal ack'' err))
           | Inr ack \<Rightarrow> Returns (Inr ack)))"

text \<open>
  The contract: X25519 with the base point never fails; two parties who exchange their
  X25519 images of the base point compute the same shared secret, without error; New accepts
  every 32-byte key; Open inverts Seal under the same key and nonce; Unmarshal inverts
  Marshal for the three body types.
\<close>

definition lib_ok :: "Lib \<Rightarrow> bool" where
  "lib_ok L \<longleftrightarrow>
     (\<forall>k. \<exists>P. X25519 L k Basepoint = Inr P) \<and>
     (\<forall>p e P E. X25519 L p Basepoint = Inr P \<longrightarrow> X25519 L e Basepoint = Inr E \<longrightarrow>
        (\<exists>s. X25519 L e P = Inr s \<and> X25519 L p E = Inr s)) \<and>
     (\<forall>k. \<exists>c. New L k = Inr c) \<and>
     (\<forall>k c n pt. New L k = Inr c \<longrightarrow> Open c n (Seal c n pt) = Inr pt) \<and>
     (\<forall>m. \<exists>bs. Marshal_Msg L m = Inr bs \<and> Unmarshal_Msg L bs = Inr m) \<and>
     (\<forall>hs. \<exists>bs. Marshal_Handshake L hs = Inr bs \<and> Unmarshal_Handshake L bs = Inr hs) \<and>
     (\<forall>ack. \<exists>bs. Marshal_HandshakeAck L ack = Inr bs \<and> Unmarshal_HandshakeAck L bs = Inr ack)"

section \<open>Package handler: the node\<close>

text \<open>
  A connection is identified by its pointer (\<open>*wss.Connection\<close> is the key of the
  encoder table); here a number.
\<close>

type_synonym conn = nat

datatype level = INFO | WARN | ERROR

text \<open>
  The handler's lock \<open>mu\<close> guards \<open>connEncoders\<close>. Every handler operation below holds it
  around one access of the table and calls nothing while holding it, so each operation is a
  function of the table it finds.
\<close>

record Handler =
  decoder :: Decoder
  privateKey :: Key
  connEncoders :: "conn \<rightharpoonup> Encoder"

text \<open>
  What the handler does to the outside: the lines it logs (level and message; the
  attributes of a line are left out), the buffers it passes to \<open>tun.Write\<close>, and the
  frames it passes to \<open>conn.Send\<close>, each in call order.
\<close>

record World =
  logs :: "(level \<times> string) list"
  tun_writes :: "byte list list"
  sends :: "(conn \<times> byte list) list"

text \<open>
  What the outside answers during one call: the outcomes of the two \<open>rand.Read\<close> calls
  of an encryption and the answer of the TUN device to a write (bytes written, or an
  error).
\<close>

record Env =
  rnd_key :: "error + Key"
  rnd_nonce :: "error + Nonce"
  tun_Write :: "byte list \<Rightarrow> error + nat"

definition NewHandler :: "Key \<Rightarrow> Handler" where
  "NewHandler privKey =
     \<lparr>decoder = NewDecoder privKey, privateKey = privKey, connEncoders = Map.empty\<rparr>"

definition slog :: "level \<Rightarrow> string \<Rightarrow> World \<Rightarrow> World" where
  "slog lvl msg w = w\<lparr>logs := logs w @ [(lvl, msg)]\<rparr>"

definition conn_Send :: "conn \<Rightarrow> byte list \<Rightarrow> World \<Rightarrow> World" where
  "conn_Send c data w = w\<lparr>sends := sends w @ [(c, data)]\<rparr>"

definition sendHandshakeAck ::
  "Lib \<Rightarrow> Env \<Rightarrow> conn \<Rightarrow> Key option \<Rightarrow> bool \<Rightarrow> string \<Rightarrow> World \<Rightarrow> World" where
  "sendHandshakeAck L env c clientPubKey success message w =
     (let ack = \<lparr>Success = success, Message = message\<rparr> in
      case clientPubKey of
        None \<Rightarrow> slog ERROR ''Cannot send ack - no client public key'' w
      | Some k \<Rightarrow>
          (case EncryptHandshakeAck L (NewEncoder k) (rnd_key env) (rnd_nonce env) ack of
             Inl err \<Rightarrow> slog ERROR ''Failed to encrypt ack'' w
           | Inr rawMsg \<Rightarrow>
               (case Marshal_RawMsg L rawMsg of
                  Inl err \<Rightarrow> slog ERROR ''Failed to marshal ack'' w
                | Inr data \<Rightarrow> conn_Send c data w)))"

definition handleHandshake ::
  "Lib \<Rightarrow> Env \<Rightarrow> conn \<Rightarrow> RawMsg \<Rightarrow> Handler \<times> World \<Rightarrow> (Handler \<times> World) outcome" where
  "handleHandshake L env c rawMsg s =
     (case s of (h, w) \<Rightarrow>
      case DecryptHandshake L (decoder h) rawMsg of
        Panics p \<Rightarrow> Panics p
      | Returns (Inl err) \<Rightarrow>
          Returns (h, sendHandshakeAck L env c None False ''decrypt error''
                        (slog ERROR ''Failed to decrypt handshake'' w))
      | Returns (Inr hs) \<Rightarrow>
          Returns (h\<lparr>connEncoders := (connEncoders h)(c \<mapsto> NewEncoder (ClientPublicKey hs))\<rparr>,
                   sendHandshakeAck L env c (Some (ClientPublicKey hs)) True ''ok''
                     (slog INFO ''Client registered'' w)))"

definition handleData ::
  "Lib \<Rightarrow> Env \<Rightarrow> conn \<Rightarrow> RawMsg \<Rightarrow> Handler \<times> World \<Rightarrow> (Handler \<times> World) outcome" where
  "handleData L env c rawMsg s =
     (case s of (h, w) \<Rightarrow>
      case connEncoders h c of
        None \<Rightarrow> Returns (h, slog WARN ''Data from unregistered client, ignoring'' w)
      | Some enc \<Rightarrow>
     (case DecryptBody L (decoder h) rawMsg of
        Panics p \<Rightarrow> Panics p
      | Returns (Inl err) \<Rightarrow> Returns (h, slog ERROR ''Failed to decrypt message'' w)
      | Returns (Inr cookedMsg) \<Rightarrow>
     (case NextHop (cm_Body cookedMsg) of
        Some nh \<Rightarrow> Returns (h, slog WARN ''Multi-hop routing not implemented yet'' w)
      | None \<Rightarrow>
     (let w' = w\<lparr>tun_writes := tun_writes w @ [Data (cm_Body cookedMsg)]\<rparr> in
      case tun_Write env (Data (cm_Body cookedMsg)) of
        Inl err \<Rightarrow> Returns (h, slog ERROR ''Failed to write to TUN'' w')
      | Inr n \<Rightarrow>
          if n \<noteq> length (Data (cm_Body cookedMsg))
          then Returns (h, slog WARN ''Incomplete TUN write'' w')
          else Returns (h, w')))))"

text \<open>
  HandleMessage reads \<open>rawMsg.Header.Type\<close> right after Unmarshal returned without error,
  with no check that the header pointer was set.
\<close>

definition HandleMessage ::
  "Lib \<Rightarrow> Env \<Rightarrow> conn \<Rightarrow> byte list \<Rightarrow> Handler \<times> World \<Rightarrow> (Handler \<times> World) outcome" where
  "HandleMessage L env c data s =
     (case s of (h, w) \<Rightarrow>
      case Unmarshal_RawMsg L data of
        Inl err \<Rightarrow> Returns (h, slog ERROR ''Failed to unmarshal message'' w)
      | Inr rawMsg \<Rightarrow>
          (case rm_Header rawMsg of
             None \<Rightarrow> Panics nil_dereference
           | Some header \<Rightarrow>
               if Type header = TypeHandshake then handleHandshake L env c rawMsg (h, w)
               else if Type header = TypeData then handleData L env c rawMsg (h, w)
               else Returns (h, slog WARN ''Unknown message type'' w)))"

definition RemoveConnection :: "conn \<Rightarrow> Handler \<times> World \<Rightarrow> Handler \<times> World" where
  "RemoveConnection c s =
     (case s of (h, w) \<Rightarrow>
        (h\<lparr>connEncoders := (connEncoders h)(c := None)\<rparr>, slog INFO ''Client disconnected'' w))"

section \<open>Packages processor and vpn: the client\<close>

definition Process :: "Env \<Rightarrow> CookedMsg \<Rightarrow> World \<Rightarrow> World \<times> error option" where
  "Process env data w =
     (case NextHop (cm_Body data) of
        None \<Rightarrow>
          (let w' = w\<lparr>tun_writes := tun_writes w @ [Data (cm_Body data)]\<rparr> in
           case tun_Write env (Data (cm_Body data)) of
             Inl err \<Rightarrow> (w', Some (wrap ''failed to write to TUN'' err))
           | Inr n \<Rightarrow>
               if n \<noteq> length (Data (cm_Body data)) then (w', Some ''incomplete write'')
               else (w', None))
      | Some nh \<Rightarrow> (w, None))"

record Client =
  cl_encoder :: Encoder
  cl_decoder :: Decoder
  clientPubKey :: Key

text \<open>
  NewClient drops the error of PublicKeyFromPrivate; the key is then the zero value.
\<close>

definition NewClient :: "Lib \<Rightarrow> Key \<Rightarrow> Key \<Rightarrow> Client" where
  "NewClient L cfg_PrivateKey cfg_NodePublicKey =
     \<lparr>cl_encoder = NewEncoder cfg_NodePublicKey,
      cl_decoder = NewDecoder cfg_PrivateKey,
      clientPubKey = (case PublicKeyFromPrivate L cfg_PrivateKey of Inl err \<Rightarrow> 0 | Inr k \<Rightarrow> k)\<rparr>"

text \<open>
  What the transport and the rest of the run answer: the error of \<open>transport.Send\<close> for a
  frame (None is nil), the result of the one \<open>transport.Receive\<close>, and what Run's final
  select yields once the pumps run (the context's error or the first pump error).
\<close>

record ClientEnv =
  hs_rnd_key :: "error + Key"
  hs_rnd_nonce :: "error + Nonce"
  transport_Send :: "byte list \<Rightarrow> error option"
  transport_Receive :: "error + byte list"
  select_result :: "error option"

text \<open>The calls Run makes on the transport and the goroutines it starts, in order.\<close>

datatype event = Sent "byte list" | Received | Go_sendLoop | Go_receiveLoop

definition handshake :: "Lib \<Rightarrow> ClientEnv \<Rightarrow> Client \<Rightarrow> event list \<times> error option outcome" where
  "handshake L env c =
     (let hs = \<lparr>ClientPublicKey = clientPubKey c\<rparr> in
      case EncryptHandshake L (cl_encoder c) (hs_rnd_key env) (hs_rnd_nonce env) hs of
        Inl err \<Rightarrow> ([], Returns (Some (wrap ''encrypt handshake'' err)))
      | Inr rawMsg \<Rightarrow>
     (case Marshal_RawMsg L rawMsg of
        Inl err \<Rightarrow> ([], Returns (Some (wrap ''marshal handshake'' err)))
      | Inr data \<Rightarrow>
     (case transport_Send env data of
        Some err \<Rightarrow> ([Sent data], Returns (Some (wrap ''send handshake'' err)))
      | None \<Rightarrow>
     (let tr = [Sent data, Received] in
      case transport_Receive env of
        Inl err \<Rightarrow> (tr, Returns (Some (wrap ''receive ack'' err)))
      | Inr ackData \<Rightarrow>
     (case Unmarshal_RawMsg L ackData of
        Inl err \<Rightarrow> (tr, Returns (Some (wrap ''unmarshal ack'' err)))
      | Inr ackRaw \<Rightarrow>
     (case rm_Header ackRaw of
        None \<Rightarrow> (tr, Panics nil_dereference)
      | Some header \<Rightarrow>
          if Type header \<noteq> TypeHandshakeAck
          then (tr, Returns (Some ''expected handshake ack, got another type''))
          else
     (case DecryptHandshakeAck L (cl_decoder c) ackRaw of
        Panics p \<Rightarrow> (tr, Panics p)
      | Returns (Inl err) \<Rightarrow> (tr, Returns (Some (wrap ''decrypt ack'' err)))
      | Returns (Inr ack) \<Rightarrow>
          if \<not> Success ack then (tr, Returns (Some (wrap ''handshake rejected'' (Message ack))))
          else (tr, Returns None))))))))"

definition Run :: "Lib \<Rightarrow> ClientEnv \<Rightarrow> Client \<Rightarrow> event list \<times> error option outcome" where
  "Run L env c =
     (case handshake L env c of
        (tr, Panics p) \<Rightarrow> (tr, Panics p)
      | (tr, Returns (Some err)) \<Rightarrow> (tr, Returns (Some (wrap ''handshake failed'' err)))
      | (tr, Returns None) \<Rightarrow> (tr @ [Go_sendLoop, Go_receiveLoop], Returns (select_result env)))"

section \<open>Package wss (server): the connection's send queue\<close>

text \<open>
  \<open>sendCh\<close> is a buffered channel, \<open>make(chan []byte, 256)\<close>: its content in order, at
  most 256 frames. \<open>mu\<close> is a \<open>sync.Mutex\<close>: \<open>mu_locked\<close> says that another goroutine
  holds it. Send and the clean-up of handleWebSocket hold it for a field access only,
  which is one step here; writePump holds it across \<open>conn.WriteMessage\<close>, a network
  write, so that is two steps: \<open>writePump_take\<close> (receive from the channel, lock, start
  the write) and \<open>writePump_done\<close> (the write returned, unlock).
\<close>

record Connection =
  sendCh :: "byte list list"
  closed :: bool
  mu_locked :: bool

definition sendCh_cap :: nat where
  "sendCh_cap = 256"

definition new_Connection :: Connection where
  "new_Connection = \<lparr>sendCh = [], closed = False, mu_locked = False\<rparr>"

text \<open>
  A call either returns or is still waiting in \<open>mu.Lock()\<close> for the holder to unlock.
\<close>

datatype 'a progress = Returned 'a | Waits_for_mutex

definition Send :: "Connection \<Rightarrow> byte list \<Rightarrow> error option progress \<times> Connection" where
  "Send c data =
     (if mu_locked c then (Waits_for_mutex, c)
      else if closed c then (Returned (Some ''connection closed''), c)
      else if length (sendCh c) < sendCh_cap
           then (Returned None, c\<lparr>sendCh := sendCh c @ [data]\<rparr>)
           else (Returned (Some ''send buffer full''), c))"

definition writePump_take :: "Connection \<Rightarrow> Connection" where
  "writePump_take c =
     (case sendCh c of
        [] \<Rightarrow> c
      | data # queue \<Rightarrow> if mu_locked c then c else c\<lparr>sendCh := queue, mu_locked := True\<rparr>)"

definition writePump_done :: "Connection \<Rightarrow> Connection" where
  "writePump_done c = c\<lparr>mu_locked := False\<rparr>"

section \<open>The key-generation command\<close>

text \<open>
  The command's flags: \<open>-client\<close>, \<open>-node\<close> and \<open>-derive\<close>. For \<open>-derive\<close> the model takes
  the outcome of \<open>hex.DecodeString\<close> and of the length check: \<open>None\<close> when the flag is empty,
  \<open>Some None\<close> when its argument is not 64 hex characters, \<open>Some (Some k)\<close> when it is the key
  \<open>k\<close>. What main prints is a list of lines, a key line being a label followed by the key
  in hex; the second component of the result is the exit code. \<open>rnd1\<close> and \<open>rnd2\<close> are the
  outcomes of \<open>rand.Read\<close> in the first and second call of GenerateKeyPair.
\<close>

record Args =
  genClient :: bool
  genNode :: bool
  privKeyHex :: "Key option option"

datatype printed = Line string | KeyLine string Key

fun keys_of :: "printed list \<Rightarrow> Key list" where
  "keys_of [] = []"
| "keys_of (Line s # out) = keys_of out"
| "keys_of (KeyLine s k # out) = k # keys_of out"

definition keygen_main ::
  "Lib \<Rightarrow> Args \<Rightarrow> error + Key \<Rightarrow> error + Key \<Rightarrow> printed list \<times> nat" where
  "keygen_main L args rnd1 rnd2 =
     (case privKeyHex args of
        Some None \<Rightarrow> ([Line ''Error: private key must be 64 hex characters''], 1)
      | Some (Some privKey) \<Rightarrow>
          (case PublicKeyFromPrivate L privKey of
             Inl err \<Rightarrow> ([Line (''Error: '' @ err)], 1)
           | Inr pubKey \<Rightarrow> ([KeyLine ''Private: '' privKey, KeyLine ''Public:  '' pubKey], 0))
      | None \<Rightarrow>
          if genClient args then
            (case GenerateKeyPair L rnd1 of
               Inl err \<Rightarrow> ([Line (''Error: '' @ err)], 1)
             | Inr (priv, pub) \<Rightarrow>
                 ([Line ''# Client keys (add to .env.client)'',
                   KeyLine ''PRIVATE_KEY='' priv,
                   Line [],
                   Line ''# Add this to .env.node as CLIENT_PUBLIC_KEY'',
                   KeyLine ''CLIENT_PUBLIC_KEY='' pub], 0))
          else if genNode args then
            (case GenerateKeyPair L rnd1 of
               Inl err \<Rightarrow> ([Line (''Error: '' @ err)], 1)
             | Inr (priv, pub) \<Rightarrow>
                 ([Line ''# Node keys (add to .env.node)'',
                   KeyLine ''NODE_PRIVATE_KEY='' priv,
                   KeyLine ''NODE_PUBLIC_KEY='' pub,
                   Line [],
                   Line ''# Add NODE_PUBLIC_KEY to .env.client''], 0))
          else
            (let (nodePriv, nodePub) =
                   (case GenerateKeyPair L rnd1 of Inl err \<Rightarrow> (0, 0) | Inr pair \<Rightarrow> pair);
                 (clientPriv, clientPub) =
                   (case GenerateKeyPair L rnd2 of Inl err \<Rightarrow> (0, 0) | Inr pair \<Rightarrow> pair)
             in ([Line ''=== Generating new key pairs ==='',
                  Line [],
                  Line ''# .env.node'',
                  KeyLine ''NODE_PRIVATE_KEY='' nodePriv,
                  KeyLine ''NODE_PUBLIC_KEY='' nodePub,
                  KeyLine ''CLIENT_PUBLIC_KEY='' clientPub,
                  Line [],
                  Line ''# .env.client'',
                  KeyLine ''PRIVATE_KEY='' clientPriv,
                  KeyLine ''NODE_PUBLIC_KEY='' nodePub], 0)))"

section \<open>A small instance of the libraries\<close>

text \<open>
  An executable instance, to show that the contract can be met and to run the program on
  concrete frames. The codec follows the layout the program relies on: fields in declaration
  order, a pointer as one flag byte (1 for nil) followed by the value when there is one, byte
  slices and strings behind a length, numbers and fixed-size arrays as one unsigned number of
  variable length, trailing bytes ignored. The cryptographic functions are stand-ins with the
  algebra of the real ones and none of their strength: X25519 multiplies the point by an odd
  number made from the scalar and rejects the zero point, as the real one rejects points of
  low order; the AEAD appends a checksum of key, nonce and plaintext.
\<close>

function uvarint :: "nat \<Rightarrow> byte list" where
  "uvarint n = (if n < 128 then [of_nat n] else of_nat (128 + n mod 128) # uvarint (n div 128))"
  by pat_completeness auto
termination
  by (relation "measure id") auto

fun read_uvarint :: "byte list \<Rightarrow> (nat \<times> byte list) option" where
  "read_uvarint [] = None"
| "read_uvarint (b # bs) =
     (if unat b < 128 then Some (unat b, bs)
      else (case read_uvarint bs of
              None \<Rightarrow> None
            | Some (n, rest) \<Rightarrow> Some (unat b - 128 + 128 * n, rest)))"

definition put_word :: "'a::len word \<Rightarrow> byte list" where
  "put_word w = uvarint (unat w)"

definition get_word :: "byte list \<Rightarrow> ('a::len word \<times> byte list) option" where
  "get_word bs = (case read_uvarint bs of None \<Rightarrow> None | Some (n, rest) \<Rightarrow> Some (of_nat n, rest))"

definition put_bytes :: "byte list \<Rightarrow> byte list" where
  "put_bytes bs = uvarint (length bs) @ bs"

definition get_bytes :: "byte list \<Rightarrow> (byte list \<times> byte list) option" where
  "get_bytes bs =
     (case read_uvarint bs of
        None \<Rightarrow> None
      | Some (n, rest) \<Rightarrow> if n \<le> length rest then Some (take n rest, drop n rest) else None)"

definition put_string :: "string \<Rightarrow> byte list" where
  "put_string s = put_bytes (map (\<lambda>c. of_nat (of_char c)) s)"

definition get_string :: "byte list \<Rightarrow> (string \<times> byte list) option" where
  "get_string bs =
     (case get_bytes bs of
        None \<Rightarrow> None
      | Some (raw, rest) \<Rightarrow> Some (map (\<lambda>b. char_of (unat b)) raw, rest))"

definition put_bool :: "bool \<Rightarrow> byte list" where
  "put_bool b = [if b then 1 else 0]"

fun get_bool :: "byte list \<Rightarrow> (bool \<times> byte list) option" where
  "get_bool [] = None"
| "get_bool (b # bs) = Some (b = 1, bs)"

definition put_ptr :: "('a \<Rightarrow> byte list) \<Rightarrow> 'a option \<Rightarrow> byte list" where
  "put_ptr put p = (case p of None \<Rightarrow> put_bool True | Some v \<Rightarrow> put_bool False @ put v)"

definition get_ptr ::
  "(byte list \<Rightarrow> ('a \<times> byte list) option) \<Rightarrow> byte list \<Rightarrow> ('a option \<times> byte list) option" where
  "get_ptr get bs =
     (case get_bool bs of
        None \<Rightarrow> None
      | Some (isNil, rest) \<Rightarrow>
          if isNil then Some (None, rest)
          else (case get rest of None \<Rightarrow> None | Some (v, rest') \<Rightarrow> Some (Some v, rest')))"

definition put_Header :: "Header \<Rightarrow> byte list" where
  "put_Header h =
     put_string (Version h) @ put_word (Type h) @ put_word (EphemeralKey h) @ put_word (Nonce h)"

definition get_Header :: "byte list \<Rightarrow> (Header \<times> byte list) option" where
  "get_Header bs =
     (case get_string bs of None \<Rightarrow> None | Some (v, r1) \<Rightarrow>
     (case get_word r1 of None \<Rightarrow> None | Some (t, r2) \<Rightarrow>
     (case get_word r2 of None \<Rightarrow> None | Some (k, r3) \<Rightarrow>
     (case get_word r3 of None \<Rightarrow> None | Some (n, r4) \<Rightarrow>
        Some (\<lparr>Version = v, Type = t, EphemeralKey = k, Nonce = n\<rparr>, r4)))))"

definition put_RawMsg :: "RawMsg \<Rightarrow> byte list" where
  "put_RawMsg r = put_ptr put_Header (rm_Header r) @ put_bytes (rm_Body r)"

definition get_RawMsg :: "byte list \<Rightarrow> (RawMsg \<times> byte list) option" where
  "get_RawMsg bs =
     (case get_ptr get_Header bs of None \<Rightarrow> None | Some (h, r1) \<Rightarrow>
     (case get_bytes r1 of None \<Rightarrow> None | Some (b, r2) \<Rightarrow>
        Some (\<lparr>rm_Header = h, rm_Body = b\<rparr>, r2)))"

definition put_NextHop :: "NextHop \<Rightarrow> byte list" where
  "put_NextHop nh = put_word (PublicKey nh) @ put_string (Protocol nh) @ put_string (Endpoint nh)"

definition get_NextHop :: "byte list \<Rightarrow> (NextHop \<times> byte list) option" where
  "get_NextHop bs =
     (case get_word bs of None \<Rightarrow> None | Some (k, r1) \<Rightarrow>
     (case get_string r1 of None \<Rightarrow> None | Some (p, r2) \<Rightarrow>
     (case get_string r2 of None \<Rightarrow> None | Some (e, r3) \<Rightarrow>
        Some (\<lparr>PublicKey = k, Protocol = p, Endpoint = e\<rparr>, r3))))"

definition put_Msg :: "Msg \<Rightarrow> byte list" where
  "put_Msg m =
     put_word (Flags m) @ put_word (Timestamp m) @ put_ptr put_NextHop (NextHop m)
       @ put_bytes (Data m)"

definition get_Msg :: "byte list \<Rightarrow> (Msg \<times> byte list) option" where
  "get_Msg bs =
     (case get_word bs of None \<Rightarrow> None | Some (f, r1) \<Rightarrow>
     (case get_word r1 of None \<Rightarrow> None | Some (t, r2) \<Rightarrow>
     (case get_ptr get_NextHop r2 of None \<Rightarrow> None | Some (nh, r3) \<Rightarrow>
     (case get_bytes r3 of None \<Rightarrow> None | Some (d, r4) \<Rightarrow>
        Some (\<lparr>Flags = f, Timestamp = t, NextHop = nh, Data = d\<rparr>, r4)))))"

definition put_Handshake :: "Handshake \<Rightarrow> byte list" where
  "put_Handshake hs = put_word (ClientPublicKey hs)"

definition get_Handshake :: "byte list \<Rightarrow> (Handshake \<times> byte list) option" where
  "get_Handshake bs =
     (case get_word bs of None \<Rightarrow> None | Some (k, r1) \<Rightarrow> Some (\<lparr>ClientPublicKey = k\<rparr>, r1))"

definition put_HandshakeAck :: "HandshakeAck \<Rightarrow> byte list" where
  "put_HandshakeAck ack = put_bool (Success ack) @ put_string (Message ack)"

definition get_HandshakeAck :: "byte list \<Rightarrow> (HandshakeAck \<times> byte list) option" where
  "get_HandshakeAck bs =
     (case get_bool bs of None \<Rightarrow> None | Some (s, r1) \<Rightarrow>
     (case get_string r1 of None \<Rightarrow> None | Some (m, r2) \<Rightarrow>
        Some (\<lparr>Success = s, Message = m\<rparr>, r2)))"

definition unmarshal :: "(byte list \<Rightarrow> ('a \<times> byte list) option) \<Rightarrow> byte list \<Rightarrow> error + 'a" where
  "unmarshal get bs = (case get bs of None \<Rightarrow> Inl ''EOF'' | Some (v, rest) \<Rightarrow> Inr v)"

definition toy_tag :: "Key \<Rightarrow> Nonce \<Rightarrow> byte list \<Rightarrow> byte" where
  "toy_tag k n pt = ucast k + ucast n + sum_list pt"

definition toy_AEAD :: "Key \<Rightarrow> AEAD" where
  "toy_AEAD k =
     \<lparr>Seal = (\<lambda>n pt. pt @ [toy_tag k n pt]),
      Open = (\<lambda>n ct. if ct \<noteq> [] \<and> last ct = toy_tag k n (butlast ct) then Inr (butlast ct)
                      else Inl ''chacha20poly1305: message authentication failed'')\<rparr>"

definition toy_X25519 :: "Key \<Rightarrow> Key \<Rightarrow> error + Key" where
  "toy_X25519 scalar point =
     (if point = 0 then Inl ''bad input point: low order point''
      else Inr (point * (2 * scalar + 1)))"

definition toy_lib :: Lib where
  "toy_lib =
     \<lparr>X25519 = toy_X25519,
      Sum256 = (\<lambda>s. s + 1),
      New = (\<lambda>k. Inr (toy_AEAD k)),
      Marshal_Msg = (\<lambda>m. Inr (put_Msg m)),
      Unmarshal_Msg = unmarshal get_Msg,
      Marshal_Handshake = (\<lambda>hs. Inr (put_Handshake hs)),
      Unmarshal_Handshake = unmarshal get_Handshake,
      Marshal_HandshakeAck = (\<lambda>ack. Inr (put_HandshakeAck ack)),
      Unmarshal_HandshakeAck = unmarshal get_HandshakeAck,
      Marshal_RawMsg = (\<lambda>r. Inr (put_RawMsg r)),
      Unmarshal_RawMsg = unmarshal get_RawMsg\<rparr>"

section \<open>The instance meets the contract\<close>

lemma unat_of_nat_byte: "n < 256 \<Longrightarrow> unat (of_nat n :: byte) = n"
  by (simp add: unat_of_nat)

lemma read_uvarint_uvarint [simp]: "read_uvarint (uvarint n @ rest) = Some (n, rest)"
proof (induction n rule: uvarint.induct)
  case (1 n)
  show ?case
  proof (cases "n < 128")
    case True
    then show ?thesis by (simp add: unat_of_nat_byte)
  next
    case False
    have b: "unat (of_nat (128 + n mod 128) :: byte) = 128 + n mod 128"
      by (rule unat_of_nat_byte) simp
    from False 1 have ih: "read_uvarint (uvarint (n div 128) @ rest) = Some (n div 128, rest)"
      by simp
    have "uvarint n = of_nat (128 + n mod 128) # uvarint (n div 128)"
      using False by (subst uvarint.simps) simp
    then show ?thesis using b ih by simp
  qed
qed

declare uvarint.simps [simp del]

lemma get_put_word [simp]: "get_word (put_word w @ rest) = Some (w, rest)"
  by (simp add: get_word_def put_word_def)

lemma get_put_bytes [simp]: "get_bytes (put_bytes bs @ rest) = Some (bs, rest)"
  by (simp add: get_bytes_def put_bytes_def)

lemma get_put_string [simp]: "get_string (put_string s @ rest) = Some (s, rest)"
  by (simp add: get_string_def put_string_def unat_of_nat o_def map_idI)

lemma get_put_bool [simp]: "get_bool (put_bool b @ rest) = Some (b, rest)"
  by (simp add: put_bool_def)

lemma get_put_ptr [simp]:
  assumes "\<And>v rest. get (put v @ rest) = Some (v, rest)"
  shows "get_ptr get (put_ptr put p @ rest) = Some (p, rest)"
  using assms by (cases p) (simp_all add: get_ptr_def put_ptr_def)

lemma get_put_NextHop [simp]: "get_NextHop (put_NextHop nh @ rest) = Some (nh, rest)"
  by (simp add: get_NextHop_def put_NextHop_def)

lemma get_put_Msg [simp]: "get_Msg (put_Msg m @ rest) = Some (m, rest)"
  by (simp add: get_Msg_def put_Msg_def)

lemma get_put_Handshake [simp]: "get_Handshake (put_Handshake hs @ rest) = Some (hs, rest)"
  by (simp add: get_Handshake_def put_Handshake_def)

lemma get_put_HandshakeAck [simp]:
  "get_HandshakeAck (put_HandshakeAck ack @ rest) = Some (ack, rest)"
  by (simp add: get_HandshakeAck_def put_HandshakeAck_def)

lemma get_put_Header [simp]: "get_Header (put_Header h @ rest) = Some (h, rest)"
  by (simp add: get_Header_def put_Header_def)

lemma get_put_RawMsg [simp]: "get_RawMsg (put_RawMsg r @ rest) = Some (r, rest)"
  by (simp add: get_RawMsg_def put_RawMsg_def)

lemma unmarshal_put:
  assumes "\<And>v rest. get (put v @ rest) = Some (v, rest)"
  shows "unmarshal get (put v) = Inr v"
  using assms [of v "[]"] by (simp add: unmarshal_def)

lemma toy_X25519_base: "toy_X25519 k Basepoint = Inr (9 * (2 * k + 1))"
  by (simp add: toy_X25519_def Basepoint_def)

lemma toy_public_nonzero: "(9 :: Key) * (2 * k + 1) \<noteq> 0"
proof
  assume "(9 :: Key) * (2 * k + 1) = 0"
  then have "even ((9 :: Key) * (2 * k + 1))" by simp
  then show False by simp
qed

lemma toy_shared: "(c * a) * b = (c * b) * (a :: Key)"
  by (simp add: mult_ac)

lemma toy_lib_ok: "lib_ok toy_lib"
  unfolding lib_ok_def
proof (intro conjI allI impI)
  fix k show "\<exists>P. X25519 toy_lib k Basepoint = Inr P"
    by (simp add: toy_lib_def toy_X25519_base)
next
  fix p e P E
  assume "X25519 toy_lib p Basepoint = Inr P" and "X25519 toy_lib e Basepoint = Inr E"
  then have P: "P = 9 * (2 * p + 1)" and E: "E = 9 * (2 * e + 1)"
    by (simp_all add: toy_lib_def toy_X25519_base)
  have "P * (2 * e + 1) = E * (2 * p + 1)"
    unfolding P E by (rule toy_shared)
  moreover have "P \<noteq> 0" and "E \<noteq> 0"
    unfolding P E by (rule toy_public_nonzero)+
  ultimately show "\<exists>s. X25519 toy_lib e P = Inr s \<and> X25519 toy_lib p E = Inr s"
    by (simp add: toy_lib_def toy_X25519_def)
next
  fix k show "\<exists>c. New toy_lib k = Inr c"
    by (simp add: toy_lib_def)
next
  fix k c n pt
  assume "New toy_lib k = Inr c"
  then show "Open c n (Seal c n pt) = Inr pt"
    by (auto simp: toy_lib_def toy_AEAD_def)
next
  fix m show "\<exists>bs. Marshal_Msg toy_lib m = Inr bs \<and> Unmarshal_Msg toy_lib bs = Inr m"
    by (simp add: toy_lib_def unmarshal_put [of get_Msg put_Msg])
next
  fix hs show "\<exists>bs. Marshal_Handshake toy_lib hs = Inr bs \<and> Unmarshal_Handshake toy_lib bs = Inr hs"
    by (simp add: toy_lib_def unmarshal_put [of get_Handshake put_Handshake])
next
  fix ack show "\<exists>bs. Marshal_HandshakeAck toy_lib ack = Inr bs \<and> Unmarshal_HandshakeAck toy_lib bs = Inr ack"
    by (simp add: toy_lib_def unmarshal_put [of get_HandshakeAck put_HandshakeAck])
qed

section \<open>Sealing and opening\<close>

lemma seal_body_ok:
  assumes ok: "lib_ok L" and P: "X25519 L p Basepoint = Inr P"
  shows "\<exists>E s c. X25519 L e Basepoint = Inr E \<and> X25519 L e P = Inr s \<and> X25519 L p E = Inr s
           \<and> New L (Sum256 L s) = Inr c
           \<and> seal_body L (NewEncoder P) (Inr e) (Inr n) (Inr data) what ty =
               Inr \<lparr>rm_Header = Some \<lparr>Version = Version1, Type = ty, EphemeralKey = E, Nonce = n\<rparr>,
                    rm_Body = Seal c n data\<rparr>"
proof -
  from ok obtain E where E: "X25519 L e Basepoint = Inr E"
    unfolding lib_ok_def by blast
  from ok P E obtain s where s: "X25519 L e P = Inr s" and s': "X25519 L p E = Inr s"
    unfolding lib_ok_def by blast
  from ok obtain c where c: "New L (Sum256 L s) = Inr c"
    unfolding lib_ok_def by blast
  show ?thesis
    using E s s' c by (simp add: seal_body_def NewEncoder_def)
qed

lemma open_body_seal_body:
  assumes ok: "lib_ok L" and P: "X25519 L p Basepoint = Inr P"
  shows "\<exists>raw hdr. seal_body L (NewEncoder P) (Inr e) (Inr n) (Inr data) what ty = Inr raw
           \<and> rm_Header raw = Some hdr \<and> Type hdr = ty \<and> Version hdr = Version1
           \<and> open_body L (NewDecoder p) raw what' = Returns (Inr data)"
proof -
  from seal_body_ok [OF ok P, of e n data what ty]
  obtain E s c where E: "X25519 L e Basepoint = Inr E" and s: "X25519 L p E = Inr s"
    and c: "New L (Sum256 L s) = Inr c"
    and raw: "seal_body L (NewEncoder P) (Inr e) (Inr n) (Inr data) what ty =
               Inr \<lparr>rm_Header = Some \<lparr>Version = Version1, Type = ty, EphemeralKey = E, Nonce = n\<rparr>,
                    rm_Body = Seal c n data\<rparr>"
    by blast
  from ok c have "Open c n (Seal c n data) = Inr data"
    unfolding lib_ok_def by blast
  then show ?thesis
    using raw s c by (simp add: open_body_def NewDecoder_def)
qed

lemma roundtrip_Msg:
  assumes ok: "lib_ok L" and P: "X25519 L p Basepoint = Inr P"
  shows "\<exists>raw hdr. EncryptMsg L (NewEncoder P) (Inr e) (Inr n) m = Inr raw
           \<and> DecryptBody L (NewDecoder p) raw = Returns (Inr \<lparr>cm_Header = hdr, cm_Body = m\<rparr>)"
proof -
  from ok obtain bs where bs: "Marshal_Msg L m = Inr bs" and bs': "Unmarshal_Msg L bs = Inr m"
    unfolding lib_ok_def by blast
  from open_body_seal_body [OF ok P, of e n bs "''message''" TypeData "''body''"]
  show ?thesis
    using bs bs' by (auto simp: EncryptMsg_def DecryptBody_def)
qed

lemma roundtrip_Handshake:
  assumes ok: "lib_ok L" and P: "X25519 L p Basepoint = Inr P"
  shows "\<exists>raw. EncryptHandshake L (NewEncoder P) (Inr e) (Inr n) hs = Inr raw
           \<and> DecryptHandshake L (NewDecoder p) raw = Returns (Inr hs)"
proof -
  from ok obtain bs where bs: "Marshal_Handshake L hs = Inr bs" and bs': "Unmarshal_Handshake L bs = Inr hs"
    unfolding lib_ok_def by blast
  from open_body_seal_body [OF ok P, of e n bs "''handshake''" TypeHandshake "''handshake''"]
  show ?thesis
    using bs bs' by (auto simp: EncryptHandshake_def DecryptHandshake_def)
qed

lemma roundtrip_HandshakeAck:
  assumes ok: "lib_ok L" and P: "X25519 L p Basepoint = Inr P"
  shows "\<exists>raw. EncryptHandshakeAck L (NewEncoder P) (Inr e) (Inr n) ack = Inr raw
           \<and> DecryptHandshakeAck L (NewDecoder p) raw = Returns (Inr ack)"
proof -
  from ok obtain bs where bs: "Marshal_HandshakeAck L ack = Inr bs" and bs': "Unmarshal_HandshakeAck L bs = Inr ack"
    unfolding lib_ok_def by blast
  from open_body_seal_body [OF ok P, of e n bs "''ack''" TypeHandshakeAck "''ack''"]
  show ?thesis
    using bs bs' by (auto simp: EncryptHandshakeAck_def DecryptHandshakeAck_def)
qed

text \<open>
  C1. With libraries that meet their contract, for every private key \<open>p\<close> whose X25519
  image of the base point is \<open>P\<close>, every ephemeral scalar \<open>e\<close> and nonce \<open>n\<close> the random
  source delivers, and every body of each of the three types: the encoder bound to \<open>P\<close>
  returns a RawMsg, and the decoder holding \<open>p\<close> decrypts that RawMsg, without error,
  to the same body (EncryptMsg and DecryptBody, EncryptHandshake and DecryptHandshake,
  EncryptHandshakeAck and DecryptHandshakeAck).
\<close>

theorem seal_open_roundtrip:
  assumes "lib_ok L" and "X25519 L p Basepoint = Inr P"
  shows "(\<exists>raw hdr. EncryptMsg L (NewEncoder P) (Inr e) (Inr n) m = Inr raw
            \<and> DecryptBody L (NewDecoder p) raw = Returns (Inr \<lparr>cm_Header = hdr, cm_Body = m\<rparr>))
       \<and> (\<exists>raw. EncryptHandshake L (NewEncoder P) (Inr e) (Inr n) hs = Inr raw
            \<and> DecryptHandshake L (NewDecoder p) raw = Returns (Inr hs))
       \<and> (\<exists>raw. EncryptHandshakeAck L (NewEncoder P) (Inr e) (Inr n) ack = Inr raw
            \<and> DecryptHandshakeAck L (NewDecoder p) raw = Returns (Inr ack))"
  using roundtrip_Msg [OF assms] roundtrip_Handshake [OF assms] roundtrip_HandshakeAck [OF assms]
  by (intro conjI)

theorem seal_open_roundtrip_witness:
  "lib_ok toy_lib \<and> X25519 toy_lib 1 Basepoint = Inr 27
   \<and> (\<exists>raw hdr. EncryptMsg toy_lib (NewEncoder 27) (Inr 2) (Inr 7)
                      \<lparr>Flags = 0, Timestamp = 0, NextHop = None, Data = [0xAA, 0xBB, 0xCC]\<rparr> = Inr raw
          \<and> DecryptBody toy_lib (NewDecoder 1) raw =
              Returns (Inr \<lparr>cm_Header = hdr,
                            cm_Body = \<lparr>Flags = 0, Timestamp = 0, NextHop = None,
                                       Data = [0xAA, 0xBB, 0xCC]\<rparr>\<rparr>))
   \<and> (\<exists>raw. EncryptHandshake toy_lib (NewEncoder 27) (Inr 2) (Inr 7) \<lparr>ClientPublicKey = 63\<rparr> = Inr raw
          \<and> DecryptHandshake toy_lib (NewDecoder 1) raw = Returns (Inr \<lparr>ClientPublicKey = 63\<rparr>))
   \<and> (\<exists>raw. EncryptHandshakeAck toy_lib (NewEncoder 27) (Inr 2) (Inr 7)
                  \<lparr>Success = True, Message = ''ok''\<rparr> = Inr raw
          \<and> DecryptHandshakeAck toy_lib (NewDecoder 1) raw =
              Returns (Inr \<lparr>Success = True, Message = ''ok''\<rparr>))"
proof -
  have P: "X25519 toy_lib 1 Basepoint = Inr 27"
    by (simp add: toy_lib_def toy_X25519_def Basepoint_def)
  from seal_open_roundtrip [OF toy_lib_ok P] toy_lib_ok P show ?thesis
    by (intro conjI) blast+
qed

section \<open>Evaluating the instance on concrete frames\<close>

text \<open>
  The frames used below are sealed to the node key pair \<open>(1, 27)\<close> of the instance with
  ephemeral scalar 2 (public image 45) and nonce 7, and to the client key pair \<open>(3, 63)\<close>
  with ephemeral scalar 4 (public image 81) and nonce 8.
\<close>

lemmas toy_eval =
  toy_lib_def toy_X25519_def toy_AEAD_def toy_tag_def Basepoint_def NewDecoder_def NewEncoder_def
  unmarshal_def get_RawMsg_def get_Header_def get_Msg_def get_NextHop_def get_Handshake_def
  get_HandshakeAck_def get_word_def get_ptr_def get_bytes_def get_string_def
  put_RawMsg_def put_Header_def put_Msg_def put_NextHop_def put_Handshake_def
  put_HandshakeAck_def put_word_def put_ptr_def put_bytes_def put_string_def put_bool_def
  uvarint.simps char_of_def bit_0

lemma DecryptHandshake_63:
  "DecryptHandshake toy_lib (decoder (NewHandler 1))
      \<lparr>rm_Header = Some \<lparr>Version = Version1, Type = 2, EphemeralKey = 45, Nonce = 7\<rparr>,
       rm_Body = [63, 206]\<rparr> = Returns (Inr \<lparr>ClientPublicKey = 63\<rparr>)"
  by (simp add: DecryptHandshake_def open_body_def NewHandler_def toy_eval)

lemma ack_63:
  "EncryptHandshakeAck toy_lib (NewEncoder 63) (Inr 4) (Inr 8) \<lparr>Success = True, Message = ''ok''\<rparr> =
     Inr \<lparr>rm_Header = Some \<lparr>Version = Version1, Type = 3, EphemeralKey = 81, Nonce = 8\<rparr>,
          rm_Body = [1, 2, 111, 107, 29]\<rparr>"
  by (simp add: EncryptHandshakeAck_def seal_body_def TypeHandshakeAck_def toy_eval)

lemma ack_63_wire:
  "Marshal_RawMsg toy_lib
      \<lparr>rm_Header = Some \<lparr>Version = Version1, Type = 3, EphemeralKey = 81, Nonce = 8\<rparr>,
       rm_Body = [1, 2, 111, 107, 29]\<rparr> =
     Inr [0, 14, 116, 97, 105, 103, 97, 95, 118, 49, 95, 97, 108, 112, 104, 97,
          3, 81, 8, 5, 1, 2, 111, 107, 29]"
  by (simp add: Version1_def toy_eval)

lemma client_key_63: "X25519 toy_lib 3 Basepoint = Inr 63"
  by (simp add: toy_lib_def toy_X25519_def Basepoint_def)

lemma DecryptHandshakeAck_63:
  "DecryptHandshakeAck toy_lib (NewDecoder 3)
      \<lparr>rm_Header = Some \<lparr>Version = Version1, Type = 3, EphemeralKey = 81, Nonce = 8\<rparr>,
       rm_Body = [1, 2, 111, 107, 29]\<rparr> = Returns (Inr \<lparr>Success = True, Message = ''ok''\<rparr>)"
  by (simp add: DecryptHandshakeAck_def open_body_def toy_eval)

lemma DecryptBody_next_hop:
  "DecryptBody toy_lib (NewDecoder 1)
     \<lparr>rm_Header = Some \<lparr>Version = Version1, Type = 1, EphemeralKey = 45, Nonce = 7\<rparr>,
      rm_Body = [0, 0, 0, 5, 3, 119, 115, 115, 1, 98, 1, 170, 2]\<rparr> =
   Returns (Inr \<lparr>cm_Header = \<lparr>Version = Version1, Type = 1, EphemeralKey = 45, Nonce = 7\<rparr>,
                 cm_Body = \<lparr>Flags = 0, Timestamp = 0,
                            NextHop = Some \<lparr>PublicKey = 5, Protocol = ''wss'', Endpoint = ''b''\<rparr>,
                            Data = [0xAA]\<rparr>\<rparr>)"
  by (simp add: DecryptBody_def open_body_def toy_eval)

lemma DecryptHandshake_bad_tag:
  "DecryptHandshake toy_lib (NewDecoder 1)
      \<lparr>rm_Header = Some \<lparr>Version = Version1, Type = 2, EphemeralKey = 45, Nonce = 7\<rparr>,
       rm_Body = [63, 0]\<rparr> =
     Returns (Inl ''failed to decrypt handshake: chacha20poly1305: message authentication failed'')"
  by (simp add: DecryptHandshake_def open_body_def toy_lib_def toy_X25519_def toy_AEAD_def
      toy_tag_def NewDecoder_def wrap_def)

lemma Unmarshal_nil_header: "Unmarshal_RawMsg toy_lib [1, 0] = Inr \<lparr>rm_Header = None, rm_Body = []\<rparr>"
  by (simp add: toy_lib_def unmarshal_def get_RawMsg_def get_ptr_def get_bytes_def)

section \<open>Versions\<close>

text \<open>
  C3, as stated, fails: no decrypt operation compares the header's version with anything.
  In the instance, a Data frame and a Handshake frame that carry the version
  \<open>taiga_v0\<close> and are sealed to the decoder's key are decrypted, body returned.
\<close>

theorem Decrypt_accepts_other_version:
  "''taiga_v0'' \<noteq> Version1
   \<and> DecryptBody toy_lib (NewDecoder 1)
       \<lparr>rm_Header = Some \<lparr>Version = ''taiga_v0'', Type = 1, EphemeralKey = 45, Nonce = 7\<rparr>,
        rm_Body = [0, 0, 1, 3, 170, 187, 204, 196]\<rparr> =
     Returns (Inr \<lparr>cm_Header = \<lparr>Version = ''taiga_v0'', Type = 1, EphemeralKey = 45, Nonce = 7\<rparr>,
                   cm_Body = \<lparr>Flags = 0, Timestamp = 0, NextHop = None,
                              Data = [0xAA, 0xBB, 0xCC]\<rparr>\<rparr>)
   \<and> DecryptHandshake toy_lib (NewDecoder 1)
       \<lparr>rm_Header = Some \<lparr>Version = ''taiga_v0'', Type = 2, EphemeralKey = 45, Nonce = 7\<rparr>,
        rm_Body = [63, 206]\<rparr> =
     Returns (Inr \<lparr>ClientPublicKey = 63\<rparr>)"
  by (simp add: DecryptBody_def DecryptHandshake_def open_body_def toy_lib_def toy_X25519_def
      toy_AEAD_def toy_tag_def NewDecoder_def unmarshal_def get_Msg_def get_word_def get_ptr_def
      get_bytes_def get_Handshake_def Version1_def)

text \<open>
  C3 (amended). The decrypt operations do not read the header's version: for every
  library, decoder, header and body, replacing the version in the header changes neither
  whether DecryptBody, DecryptHandshake and DecryptHandshakeAck return a body, an error or
  panic, nor the body or error returned; DecryptBody hands the header back as it came,
  version included.
\<close>

theorem Decrypt_ignores_version:
  "DecryptBody L d \<lparr>rm_Header = Some (hdr\<lparr>Version := v\<rparr>), rm_Body = body\<rparr> =
     (case DecryptBody L d \<lparr>rm_Header = Some hdr, rm_Body = body\<rparr> of
        Returns (Inr cooked) \<Rightarrow> Returns (Inr (cooked\<lparr>cm_Header := hdr\<lparr>Version := v\<rparr>\<rparr>))
      | Returns (Inl err) \<Rightarrow> Returns (Inl err)
      | Panics p \<Rightarrow> Panics p)
   \<and> DecryptHandshake L d \<lparr>rm_Header = Some (hdr\<lparr>Version := v\<rparr>), rm_Body = body\<rparr> =
       DecryptHandshake L d \<lparr>rm_Header = Some hdr, rm_Body = body\<rparr>
   \<and> DecryptHandshakeAck L d \<lparr>rm_Header = Some (hdr\<lparr>Version := v\<rparr>), rm_Body = body\<rparr> =
       DecryptHandshakeAck L d \<lparr>rm_Header = Some hdr, rm_Body = body\<rparr>"
  by (simp add: DecryptBody_def DecryptHandshake_def DecryptHandshakeAck_def open_body_def Let_def
      split: sum.splits)

section \<open>The node: data before handshake\<close>

text \<open>
  C2. On a connection with no encoder in the table, handleData returns at once: the
  handler is unchanged, nothing is written to the TUN device, nothing is sent, and the one
  effect is the warning "Data from unregistered client, ignoring".
\<close>

theorem handleData_unregistered:
  "connEncoders h c = None \<Longrightarrow>
     handleData L env c rawMsg (h, w) =
       Returns (h, w\<lparr>logs := logs w @ [(WARN, ''Data from unregistered client, ignoring'')]\<rparr>)"
  by (simp add: handleData_def slog_def)

theorem handleData_unregistered_witness:
  "connEncoders (NewHandler 1) 0 = None \<and>
   handleData toy_lib \<lparr>rnd_key = Inr 2, rnd_nonce = Inr 7, tun_Write = (\<lambda>bs. Inr (length bs))\<rparr> 0
       \<lparr>rm_Header = Some \<lparr>Version = Version1, Type = 1, EphemeralKey = 45, Nonce = 7\<rparr>,
        rm_Body = [0, 0, 1, 3, 170, 187, 204, 196]\<rparr>
       (NewHandler 1, \<lparr>logs = [], tun_writes = [], sends = []\<rparr>) =
     Returns (NewHandler 1,
              \<lparr>logs = [(WARN, ''Data from unregistered client, ignoring'')], tun_writes = [],
               sends = []\<rparr>)"
proof -
  have h: "connEncoders (NewHandler 1) 0 = None"
    by (simp add: NewHandler_def)
  from h handleData_unregistered [OF h] show ?thesis by simp
qed

section \<open>The node: handshake\<close>

text \<open>
  C5, as stated, fails: the ack is sent only if it can be encrypted to the announced key.
  In the instance, a Handshake frame that decrypts correctly and announces the zero point
  as client key (a point X25519 rejects) has its encoder stored, and no frame is sent: the
  handler logs "Failed to encrypt ack" and returns.
\<close>

theorem handleHandshake_low_order_key_no_ack:
  "DecryptHandshake toy_lib (decoder (NewHandler 1))
      \<lparr>rm_Header = Some \<lparr>Version = Version1, Type = 2, EphemeralKey = 45, Nonce = 7\<rparr>,
       rm_Body = [0, 143]\<rparr> = Returns (Inr \<lparr>ClientPublicKey = 0\<rparr>)
   \<and> handleHandshake toy_lib
        \<lparr>rnd_key = Inr 4, rnd_nonce = Inr 8, tun_Write = (\<lambda>bs. Inr (length bs))\<rparr> 0
        \<lparr>rm_Header = Some \<lparr>Version = Version1, Type = 2, EphemeralKey = 45, Nonce = 7\<rparr>,
         rm_Body = [0, 143]\<rparr>
        (NewHandler 1, \<lparr>logs = [], tun_writes = [], sends = []\<rparr>) =
      Returns ((NewHandler 1)\<lparr>connEncoders := [0 \<mapsto> NewEncoder 0]\<rparr>,
               \<lparr>logs = [(INFO, ''Client registered''), (ERROR, ''Failed to encrypt ack'')],
                tun_writes = [], sends = []\<rparr>)"
proof -
  have d: "DecryptHandshake toy_lib (decoder (NewHandler 1))
      \<lparr>rm_Header = Some \<lparr>Version = Version1, Type = 2, EphemeralKey = 45, Nonce = 7\<rparr>,
       rm_Body = [0, 143]\<rparr> = Returns (Inr \<lparr>ClientPublicKey = 0\<rparr>)"
    by (simp add: DecryptHandshake_def open_body_def NewHandler_def toy_eval)
  have e: "EncryptHandshakeAck toy_lib (NewEncoder 0) (Inr 4) (Inr 8) \<lparr>Success = True, Message = ''ok''\<rparr> =
     Inl ''failed to compute shared secret: bad input point: low order point''"
    by (simp add: EncryptHandshakeAck_def seal_body_def wrap_def toy_eval)
  show ?thesis
    using d e by (simp add: handleHandshake_def sendHandshakeAck_def slog_def NewHandler_def)
qed

text \<open>
  C5 (amended). Handling a Handshake frame that decrypts without error stores for the
  connection an encoder bound to the announced client public key, whatever was stored for
  it before, leaves the other entries as they were, logs "Client registered" and writes
  nothing to the TUN device. If EncryptHandshakeAck of \<open>{Success = true, Message = "ok"}\<close>
  under that key and Marshal of its result both succeed, exactly that frame is passed to Send
  on the connection and nothing more is logged. If the encryption fails, the error "Failed to
  encrypt ack" is logged and nothing is sent; if Marshal fails, the error "Failed to marshal
  ack" is logged and nothing is sent; the encoder stays stored in both cases. With libraries
  that meet their contract, whenever the announced key is the X25519 image of a private key
  and the random source delivers, the encryption does succeed, its result decrypts under
  that private key to the ack with Success = true, and it is this frame that is sent as soon
  as Marshal succeeds.
\<close>

theorem handleHandshake_registers:
  assumes "DecryptHandshake L (decoder h) rawMsg = Returns (Inr hs)"
  shows "handleHandshake L env c rawMsg (h, w) =
           Returns (h\<lparr>connEncoders := (connEncoders h)(c \<mapsto> NewEncoder (ClientPublicKey hs))\<rparr>,
             case EncryptHandshakeAck L (NewEncoder (ClientPublicKey hs)) (rnd_key env) (rnd_nonce env)
                    \<lparr>Success = True, Message = ''ok''\<rparr> of
               Inl err \<Rightarrow>
                 w\<lparr>logs := logs w @ [(INFO, ''Client registered''), (ERROR, ''Failed to encrypt ack'')]\<rparr>
             | Inr ackMsg \<Rightarrow>
                 (case Marshal_RawMsg L ackMsg of
                    Inl err \<Rightarrow>
                      w\<lparr>logs := logs w @ [(INFO, ''Client registered''),
                                            (ERROR, ''Failed to marshal ack'')]\<rparr>
                  | Inr data \<Rightarrow>
                      w\<lparr>logs := logs w @ [(INFO, ''Client registered'')],
                        sends := sends w @ [(c, data)]\<rparr>))
       \<and> (lib_ok L \<and> X25519 L cp Basepoint = Inr (ClientPublicKey hs)
            \<and> rnd_key env = Inr e \<and> rnd_nonce env = Inr n \<longrightarrow>
          (\<exists>ackMsg.
              EncryptHandshakeAck L (NewEncoder (ClientPublicKey hs)) (Inr e) (Inr n)
                \<lparr>Success = True, Message = ''ok''\<rparr> = Inr ackMsg
            \<and> DecryptHandshakeAck L (NewDecoder cp) ackMsg =
                Returns (Inr \<lparr>Success = True, Message = ''ok''\<rparr>)
            \<and> (\<forall>data. Marshal_RawMsg L ackMsg = Inr data \<longrightarrow>
                  handleHandshake L env c rawMsg (h, w) =
                    Returns (h\<lparr>connEncoders :=
                                 (connEncoders h)(c \<mapsto> NewEncoder (ClientPublicKey hs))\<rparr>,
                             w\<lparr>logs := logs w @ [(INFO, ''Client registered'')],
                               sends := sends w @ [(c, data)]\<rparr>))))"
proof (intro conjI impI)
  show res: "handleHandshake L env c rawMsg (h, w) =
           Returns (h\<lparr>connEncoders := (connEncoders h)(c \<mapsto> NewEncoder (ClientPublicKey hs))\<rparr>,
             case EncryptHandshakeAck L (NewEncoder (ClientPublicKey hs)) (rnd_key env) (rnd_nonce env)
                    \<lparr>Success = True, Message = ''ok''\<rparr> of
               Inl err \<Rightarrow>
                 w\<lparr>logs := logs w @ [(INFO, ''Client registered''), (ERROR, ''Failed to encrypt ack'')]\<rparr>
             | Inr ackMsg \<Rightarrow>
                 (case Marshal_RawMsg L ackMsg of
                    Inl err \<Rightarrow>
                      w\<lparr>logs := logs w @ [(INFO, ''Client registered''),
                                            (ERROR, ''Failed to marshal ack'')]\<rparr>
                  | Inr data \<Rightarrow>
                      w\<lparr>logs := logs w @ [(INFO, ''Client registered'')],
                        sends := sends w @ [(c, data)]\<rparr>))"
    using assms
    by (simp add: handleHandshake_def sendHandshakeAck_def slog_def conn_Send_def
        split: sum.splits)
  assume a: "lib_ok L \<and> X25519 L cp Basepoint = Inr (ClientPublicKey hs)
            \<and> rnd_key env = Inr e \<and> rnd_nonce env = Inr n"
  then have ok: "lib_ok L" and P: "X25519 L cp Basepoint = Inr (ClientPublicKey hs)"
    and e: "rnd_key env = Inr e" and n: "rnd_nonce env = Inr n"
    by simp_all
  from roundtrip_HandshakeAck [OF ok P, of e n "\<lparr>Success = True, Message = ''ok''\<rparr>"]
  obtain ackMsg where
    enc: "EncryptHandshakeAck L (NewEncoder (ClientPublicKey hs)) (Inr e) (Inr n)
            \<lparr>Success = True, Message = ''ok''\<rparr> = Inr ackMsg"
    and dec: "DecryptHandshakeAck L (NewDecoder cp) ackMsg =
                Returns (Inr \<lparr>Success = True, Message = ''ok''\<rparr>)"
    by blast
  from res enc e n
  have "\<forall>data. Marshal_RawMsg L ackMsg = Inr data \<longrightarrow>
                  handleHandshake L env c rawMsg (h, w) =
                    Returns (h\<lparr>connEncoders :=
                                 (connEncoders h)(c \<mapsto> NewEncoder (ClientPublicKey hs))\<rparr>,
                             w\<lparr>logs := logs w @ [(INFO, ''Client registered'')],
                               sends := sends w @ [(c, data)]\<rparr>)"
    by simp
  with enc dec show "\<exists>ackMsg.
              EncryptHandshakeAck L (NewEncoder (ClientPublicKey hs)) (Inr e) (Inr n)
                \<lparr>Success = True, Message = ''ok''\<rparr> = Inr ackMsg
            \<and> DecryptHandshakeAck L (NewDecoder cp) ackMsg =
                Returns (Inr \<lparr>Success = True, Message = ''ok''\<rparr>)
            \<and> (\<forall>data. Marshal_RawMsg L ackMsg = Inr data \<longrightarrow>
                  handleHandshake L env c rawMsg (h, w) =
                    Returns (h\<lparr>connEncoders :=
                                 (connEncoders h)(c \<mapsto> NewEncoder (ClientPublicKey hs))\<rparr>,
                             w\<lparr>logs := logs w @ [(INFO, ''Client registered'')],
                               sends := sends w @ [(c, data)]\<rparr>))"
    by blast
qed

theorem handleHandshake_registers_witness:
  "DecryptHandshake toy_lib (decoder (NewHandler 1))
      \<lparr>rm_Header = Some \<lparr>Version = Version1, Type = 2, EphemeralKey = 45, Nonce = 7\<rparr>,
       rm_Body = [63, 206]\<rparr> = Returns (Inr \<lparr>ClientPublicKey = 63\<rparr>)
   \<and> lib_ok toy_lib \<and> X25519 toy_lib 3 Basepoint = Inr 63
   \<and> Marshal_RawMsg toy_lib
        \<lparr>rm_Header = Some \<lparr>Version = Version1, Type = 3, EphemeralKey = 81, Nonce = 8\<rparr>,
         rm_Body = [1, 2, 111, 107, 29]\<rparr> =
       Inr [0, 14, 116, 97, 105, 103, 97, 95, 118, 49, 95, 97, 108, 112, 104, 97,
            3, 81, 8, 5, 1, 2, 111, 107, 29]
   \<and> EncryptHandshakeAck toy_lib (NewEncoder 63) (Inr 4) (Inr 8)
        \<lparr>Success = True, Message = ''ok''\<rparr> =
       Inr \<lparr>rm_Header = Some \<lparr>Version = Version1, Type = 3, EphemeralKey = 81, Nonce = 8\<rparr>,
            rm_Body = [1, 2, 111, 107, 29]\<rparr>
   \<and> DecryptHandshakeAck toy_lib (NewDecoder 3)
        \<lparr>rm_Header = Some \<lparr>Version = Version1, Type = 3, EphemeralKey = 81, Nonce = 8\<rparr>,
         rm_Body = [1, 2, 111, 107, 29]\<rparr> = Returns (Inr \<lparr>Success = True, Message = ''ok''\<rparr>)
   \<and> handleHandshake toy_lib
        \<lparr>rnd_key = Inr 4, rnd_nonce = Inr 8, tun_Write = (\<lambda>bs. Inr (length bs))\<rparr> 0
        \<lparr>rm_Header = Some \<lparr>Version = Version1, Type = 2, EphemeralKey = 45, Nonce = 7\<rparr>,
         rm_Body = [63, 206]\<rparr>
        (NewHandler 1, \<lparr>logs = [], tun_writes = [], sends = []\<rparr>) =
      Returns ((NewHandler 1)\<lparr>connEncoders := [0 \<mapsto> NewEncoder 63]\<rparr>,
               \<lparr>logs = [(INFO, ''Client registered'')], tun_writes = [],
                sends = [(0, [0, 14, 116, 97, 105, 103, 97, 95, 118, 49, 95, 97, 108, 112, 104, 97,
                              3, 81, 8, 5, 1, 2, 111, 107, 29])]\<rparr>)"
proof -
  note d = DecryptHandshake_63
  from handleHandshake_registers [OF d,
      of "\<lparr>rnd_key = Inr 4, rnd_nonce = Inr 8, tun_Write = (\<lambda>bs. Inr (length bs))\<rparr>" 0
         "\<lparr>logs = [], tun_writes = [], sends = []\<rparr>" 3 4 8]
  show ?thesis
    using d toy_lib_ok client_key_63 ack_63 ack_63_wire DecryptHandshakeAck_63
    by (simp add: NewHandler_def)
qed

text \<open>
  C6. If DecryptHandshake returns an error, handleHandshake leaves the handler (so the
  encoder table) unchanged, sends nothing and writes nothing: its only effects are two
  logged errors, "Failed to decrypt handshake" and, from sendHandshakeAck called without a
  key, "Cannot send ack - no client public key".
\<close>

theorem handleHandshake_decrypt_fails:
  "DecryptHandshake L (decoder h) rawMsg = Returns (Inl err) \<Longrightarrow>
     handleHandshake L env c rawMsg (h, w) =
       Returns (h, w\<lparr>logs := logs w @ [(ERROR, ''Failed to decrypt handshake''),
                                       (ERROR, ''Cannot send ack - no client public key'')]\<rparr>)"
  by (simp add: handleHandshake_def sendHandshakeAck_def slog_def)

theorem handleHandshake_decrypt_fails_witness:
  "DecryptHandshake toy_lib (decoder (NewHandler 1))
      \<lparr>rm_Header = Some \<lparr>Version = Version1, Type = 2, EphemeralKey = 45, Nonce = 7\<rparr>,
       rm_Body = [63, 0]\<rparr> =
     Returns (Inl ''failed to decrypt handshake: chacha20poly1305: message authentication failed'')
   \<and> handleHandshake toy_lib \<lparr>rnd_key = Inr 2, rnd_nonce = Inr 7, tun_Write = (\<lambda>bs. Inr (length bs))\<rparr> 0
       \<lparr>rm_Header = Some \<lparr>Version = Version1, Type = 2, EphemeralKey = 45, Nonce = 7\<rparr>,
        rm_Body = [63, 0]\<rparr>
       (NewHandler 1, \<lparr>logs = [], tun_writes = [], sends = []\<rparr>) =
     Returns (NewHandler 1,
              \<lparr>logs = [(ERROR, ''Failed to decrypt handshake''),
                       (ERROR, ''Cannot send ack - no client public key'')],
               tun_writes = [], sends = []\<rparr>)"
proof -
  have d: "DecryptHandshake toy_lib (decoder (NewHandler 1))
      \<lparr>rm_Header = Some \<lparr>Version = Version1, Type = 2, EphemeralKey = 45, Nonce = 7\<rparr>,
       rm_Body = [63, 0]\<rparr> =
     Returns (Inl ''failed to decrypt handshake: chacha20poly1305: message authentication failed'')"
    using DecryptHandshake_bad_tag by (simp add: NewHandler_def)
  from d handleHandshake_decrypt_fails [OF d] show ?thesis by simp
qed

section \<open>Next hop\<close>

text \<open>
  C7, as stated, fails: no error is returned for a body with a next hop. The client's
  Process skips the TUN write and returns nil.
\<close>

theorem Process_NextHop_returns_nil:
  "NextHop \<lparr>Flags = 0, Timestamp = 0,
            NextHop = Some \<lparr>PublicKey = 5, Protocol = ''wss'', Endpoint = ''b''\<rparr>,
            Data = [0xAA]\<rparr> \<noteq> None
   \<and> Process \<lparr>rnd_key = Inr 2, rnd_nonce = Inr 7, tun_Write = (\<lambda>bs. Inr (length bs))\<rparr>
       \<lparr>cm_Header = \<lparr>Version = Version1, Type = 1, EphemeralKey = 45, Nonce = 7\<rparr>,
        cm_Body = \<lparr>Flags = 0, Timestamp = 0,
                   NextHop = Some \<lparr>PublicKey = 5, Protocol = ''wss'', Endpoint = ''b''\<rparr>,
                   Data = [0xAA]\<rparr>\<rparr>
       \<lparr>logs = [], tun_writes = [], sends = []\<rparr> =
     (\<lparr>logs = [], tun_writes = [], sends = []\<rparr>, None)"
  by (simp add: Process_def)

text \<open>
  C7 (amended). For every decrypted Data body whose NextHop is not nil, nothing is written
  to the TUN device on either side: the client's Process returns nil with no effect, and the
  node's handleData (on a registered connection) logs the warning "Multi-hop routing not
  implemented yet" and returns, the handler unchanged, nothing sent.
\<close>

theorem NextHop_not_forwarded:
  assumes "NextHop (cm_Body cooked) = Some nh"
    and "connEncoders h c = Some enc"
    and "DecryptBody L (decoder h) rawMsg = Returns (Inr cooked)"
  shows "Process env cooked w = (w, None)
       \<and> handleData L env c rawMsg (h, w) =
           Returns (h, w\<lparr>logs := logs w @ [(WARN, ''Multi-hop routing not implemented yet'')]\<rparr>)"
  using assms by (simp add: Process_def handleData_def slog_def)

theorem NextHop_not_forwarded_witness:
  "NextHop (cm_Body \<lparr>cm_Header = \<lparr>Version = Version1, Type = 1, EphemeralKey = 45, Nonce = 7\<rparr>,
                     cm_Body = \<lparr>Flags = 0, Timestamp = 0,
                            NextHop = Some \<lparr>PublicKey = 5, Protocol = ''wss'', Endpoint = ''b''\<rparr>,
                            Data = [0xAA]\<rparr>\<rparr>) =
     Some \<lparr>PublicKey = 5, Protocol = ''wss'', Endpoint = ''b''\<rparr>
   \<and> connEncoders ((NewHandler 1)\<lparr>connEncoders := [0 \<mapsto> NewEncoder 63]\<rparr>) 0 = Some (NewEncoder 63)
   \<and> DecryptBody toy_lib (decoder ((NewHandler 1)\<lparr>connEncoders := [0 \<mapsto> NewEncoder 63]\<rparr>))
       \<lparr>rm_Header = Some \<lparr>Version = Version1, Type = 1, EphemeralKey = 45, Nonce = 7\<rparr>,
        rm_Body = [0, 0, 0, 5, 3, 119, 115, 115, 1, 98, 1, 170, 2]\<rparr> =
     Returns (Inr \<lparr>cm_Header = \<lparr>Version = Version1, Type = 1, EphemeralKey = 45, Nonce = 7\<rparr>,
                   cm_Body = \<lparr>Flags = 0, Timestamp = 0,
                            NextHop = Some \<lparr>PublicKey = 5, Protocol = ''wss'', Endpoint = ''b''\<rparr>,
                            Data = [0xAA]\<rparr>\<rparr>)
   \<and> Process \<lparr>rnd_key = Inr 4, rnd_nonce = Inr 8, tun_Write = (\<lambda>bs. Inr (length bs))\<rparr>
       \<lparr>cm_Header = \<lparr>Version = Version1, Type = 1, EphemeralKey = 45, Nonce = 7\<rparr>,
        cm_Body = \<lparr>Flags = 0, Timestamp = 0,
                   NextHop = Some \<lparr>PublicKey = 5, Protocol = ''wss'', Endpoint = ''b''\<rparr>,
                   Data = [0xAA]\<rparr>\<rparr>
       \<lparr>logs = [], tun_writes = [], sends = []\<rparr> =
     (\<lparr>logs = [], tun_writes = [], sends = []\<rparr>, None)
   \<and> handleData toy_lib \<lparr>rnd_key = Inr 4, rnd_nonce = Inr 8, tun_Write = (\<lambda>bs. Inr (length bs))\<rparr> 0
       \<lparr>rm_Header = Some \<lparr>Version = Version1, Type = 1, EphemeralKey = 45, Nonce = 7\<rparr>,
        rm_Body = [0, 0, 0, 5, 3, 119, 115, 115, 1, 98, 1, 170, 2]\<rparr>
       ((NewHandler 1)\<lparr>connEncoders := [0 \<mapsto> NewEncoder 63]\<rparr>,
        \<lparr>logs = [], tun_writes = [], sends = []\<rparr>) =
     Returns ((NewHandler 1)\<lparr>connEncoders := [0 \<mapsto> NewEncoder 63]\<rparr>,
              \<lparr>logs = [(WARN, ''Multi-hop routing not implemented yet'')], tun_writes = [],
               sends = []\<rparr>)"
proof -
  have a: "NextHop (cm_Body \<lparr>cm_Header = \<lparr>Version = Version1, Type = 1, EphemeralKey = 45, Nonce = 7\<rparr>,
                     cm_Body = \<lparr>Flags = 0, Timestamp = 0,
                            NextHop = Some \<lparr>PublicKey = 5, Protocol = ''wss'', Endpoint = ''b''\<rparr>,
                            Data = [0xAA]\<rparr>\<rparr>) =
     Some \<lparr>PublicKey = 5, Protocol = ''wss'', Endpoint = ''b''\<rparr>"
    by simp
  have b: "connEncoders ((NewHandler 1)\<lparr>connEncoders := [0 \<mapsto> NewEncoder 63]\<rparr>) 0 = Some (NewEncoder 63)"
    by simp
  have c: "DecryptBody toy_lib (decoder ((NewHandler 1)\<lparr>connEncoders := [0 \<mapsto> NewEncoder 63]\<rparr>))
       \<lparr>rm_Header = Some \<lparr>Version = Version1, Type = 1, EphemeralKey = 45, Nonce = 7\<rparr>,
        rm_Body = [0, 0, 0, 5, 3, 119, 115, 115, 1, 98, 1, 170, 2]\<rparr> =
     Returns (Inr \<lparr>cm_Header = \<lparr>Version = Version1, Type = 1, EphemeralKey = 45, Nonce = 7\<rparr>,
                   cm_Body = \<lparr>Flags = 0, Timestamp = 0,
                            NextHop = Some \<lparr>PublicKey = 5, Protocol = ''wss'', Endpoint = ''b''\<rparr>,
                            Data = [0xAA]\<rparr>\<rparr>)"
    using DecryptBody_next_hop by (simp add: NewHandler_def NewDecoder_def)
  from NextHop_not_forwarded [OF a b c,
      of "\<lparr>rnd_key = Inr 4, rnd_nonce = Inr 8, tun_Write = (\<lambda>bs. Inr (length bs))\<rparr>"
         "\<lparr>logs = [], tun_writes = [], sends = []\<rparr>"]
  show ?thesis
    using a b c by simp
qed

section \<open>The node: frames that panic\<close>

text \<open>
  Where the model panics: a decrypt operation, a handler and HandleMessage panic exactly
  on a RawMsg whose header pointer is nil, and in no other case.
\<close>

lemma open_body_panics_iff:
  "(\<exists>p. open_body L d rawMsg what = Panics p) \<longleftrightarrow> rm_Header rawMsg = None"
  by (simp add: open_body_def Let_def split: option.splits sum.splits)

lemma DecryptHandshake_panics_iff:
  "(\<exists>p. DecryptHandshake L d rawMsg = Panics p) \<longleftrightarrow> rm_Header rawMsg = None"
  using open_body_panics_iff [of L d rawMsg "''handshake''"]
  by (auto simp: DecryptHandshake_def split: outcome.splits sum.splits)

lemma DecryptHandshakeAck_panics_iff:
  "(\<exists>p. DecryptHandshakeAck L d rawMsg = Panics p) \<longleftrightarrow> rm_Header rawMsg = None"
  using open_body_panics_iff [of L d rawMsg "''ack''"]
  by (auto simp: DecryptHandshakeAck_def split: outcome.splits sum.splits)

lemma DecryptBody_panics_iff:
  "(\<exists>p. DecryptBody L d rawMsg = Panics p) \<longleftrightarrow> rm_Header rawMsg = None"
  using open_body_panics_iff [of L d rawMsg "''body''"]
  by (auto simp: DecryptBody_def split: outcome.splits sum.splits option.splits)

lemma handleHandshake_panics_iff:
  "(\<exists>p. handleHandshake L env c rawMsg (h, w) = Panics p) \<longleftrightarrow> rm_Header rawMsg = None"
  using DecryptHandshake_panics_iff [of L "decoder h" rawMsg]
  by (auto simp: handleHandshake_def split: outcome.splits sum.splits)

lemma handleData_no_panic:
  "rm_Header rawMsg \<noteq> None \<Longrightarrow> handleData L env c rawMsg (h, w) \<noteq> Panics p"
  using DecryptBody_panics_iff [of L "decoder h" rawMsg]
  by (auto simp: handleData_def Let_def split: outcome.splits sum.splits option.splits)

lemma HandleMessage_panics_iff:
  "(\<exists>p. HandleMessage L env c data (h, w) = Panics p) \<longleftrightarrow>
     (\<exists>rawMsg. Unmarshal_RawMsg L data = Inr rawMsg \<and> rm_Header rawMsg = None)"
proof (cases "Unmarshal_RawMsg L data")
  case (Inl err)
  then show ?thesis by (simp add: HandleMessage_def)
next
  case (Inr rawMsg)
  show ?thesis
  proof (cases "rm_Header rawMsg")
    case None
    with Inr show ?thesis by (simp add: HandleMessage_def)
  next
    case (Some header)
    then have "rm_Header rawMsg \<noteq> None" by simp
    with Inr Some handleHandshake_panics_iff [of L env c rawMsg h w]
      handleData_no_panic [of rawMsg L env c h w]
    show ?thesis by (auto simp: HandleMessage_def)
  qed
qed

text \<open>
  C4. The claim is that HandleMessage never panics, whatever the bytes. The code reads
  \<open>rawMsg.Header.Type\<close> without a nil check, and the codec writes a pointer as a flag byte:
  on the two-byte frame \<open>01 00\<close> (header absent, empty body) Unmarshal succeeds with a nil
  header and HandleMessage panics, in every state of the handler.
\<close>

theorem HandleMessage_nil_header_panics:
  "HandleMessage toy_lib env c [1, 0] (h, w) = Panics nil_dereference"
  by (simp add: HandleMessage_def Unmarshal_nil_header)

section \<open>The client: handshake before the pumps\<close>

text \<open>
  Run starts the two loops only after handshake returned nil, which it does only after one
  Send and one Receive, on a frame of type HandshakeAck that decrypts to an ack with Success.
\<close>

lemma handshake_succeeds_only_on_valid_ack:
  assumes "snd (handshake L env c) = Returns None"
  shows "\<exists>ackData ackRaw header ack.
           transport_Receive env = Inr ackData \<and> Unmarshal_RawMsg L ackData = Inr ackRaw
         \<and> rm_Header ackRaw = Some header \<and> Type header = TypeHandshakeAck
         \<and> DecryptHandshakeAck L (cl_decoder c) ackRaw = Returns (Inr ack) \<and> Success ack"
  using assms
  by (auto simp: handshake_def Let_def split: sum.splits option.splits outcome.splits if_splits)

lemma handshake_trace:
  "fst (handshake L env c) = [] \<or> (\<exists>data. fst (handshake L env c) = [Sent data])
   \<or> (\<exists>data. fst (handshake L env c) = [Sent data, Received])"
  by (auto simp: handshake_def Let_def split: sum.splits option.splits outcome.splits if_splits)

lemma Run_pumps_only_after_valid_ack:
  assumes "Go_sendLoop \<in> set (fst (Run L env c)) \<or> Go_receiveLoop \<in> set (fst (Run L env c))"
  shows "\<exists>ackData ackRaw header ack.
           transport_Receive env = Inr ackData \<and> Unmarshal_RawMsg L ackData = Inr ackRaw
         \<and> rm_Header ackRaw = Some header \<and> Type header = TypeHandshakeAck
         \<and> DecryptHandshakeAck L (cl_decoder c) ackRaw = Returns (Inr ack) \<and> Success ack"
proof -
  have "snd (handshake L env c) = Returns None"
  proof (rule ccontr)
    assume n: "snd (handshake L env c) \<noteq> Returns None"
    obtain tr r where h: "handshake L env c = (tr, r)" by (cases "handshake L env c")
    with n have "fst (Run L env c) = tr"
      by (auto simp: Run_def split: outcome.splits option.splits)
    moreover from h handshake_trace [of L env c]
    have "Go_sendLoop \<notin> set tr \<and> Go_receiveLoop \<notin> set tr" by auto
    ultimately show False using assms by simp
  qed
  then show ?thesis by (rule handshake_succeeds_only_on_valid_ack)
qed

text \<open>
  C8. The claim is that Run returns an error, with no pump started, unless the received
  frame is a valid ack. When the node answers the handshake with the two bytes \<open>01 00\<close>,
  the client's handshake reads \<open>ackRaw.Header.Type\<close> through a nil pointer: Run has sent the
  handshake and received once, starts no pump, and panics where an error was to be returned.
\<close>

theorem Run_nil_header_ack_panics:
  "Run toy_lib
     \<lparr>hs_rnd_key = Inr 2, hs_rnd_nonce = Inr 7, transport_Send = (\<lambda>data. None),
      transport_Receive = Inr [1, 0], select_result = None\<rparr>
     (NewClient toy_lib 3 27) =
   ([Sent [0, 14, 116, 97, 105, 103, 97, 95, 118, 49, 95, 97, 108, 112, 104, 97,
           2, 45, 7, 2, 63, 206],
     Received],
    Panics nil_dereference)"
  by (simp add: Run_def handshake_def NewClient_def PublicKeyFromPrivate_def EncryptHandshake_def
      seal_body_def Version1_def TypeHandshake_def toy_eval)

section \<open>The send queue\<close>

text \<open>
  With the mutex free, Send returns at once: an error and the queue unchanged when the
  connection is closed or 256 frames are queued, nil and the frame appended otherwise. The
  queue never grows beyond its capacity.
\<close>

lemma Send_mutex_free:
  assumes "\<not> mu_locked c"
  shows "Send c data =
           (if closed c then (Returned (Some ''connection closed''), c)
            else if length (sendCh c) < 256 then (Returned None, c\<lparr>sendCh := sendCh c @ [data]\<rparr>)
            else (Returned (Some ''send buffer full''), c))"
  using assms by (simp add: Send_def sendCh_cap_def)

lemma Send_bounded:
  "length (sendCh c) \<le> sendCh_cap \<Longrightarrow> length (sendCh (snd (Send c data))) \<le> sendCh_cap"
  by (simp add: Send_def)

text \<open>
  C9. The claim is that Send never blocks its caller. Send locks the mutex that writePump
  holds for the whole of a network write: from a fresh connection, after one Send and after
  writePump has taken that frame and begun to write it, a second Send does not return; it
  waits in \<open>mu.Lock()\<close> until the write ends.
\<close>

theorem Send_waits_while_writePump_writes:
  "Send (writePump_take (snd (Send new_Connection [1]))) [2] =
     (Waits_for_mutex, \<lparr>sendCh = [], closed = False, mu_locked = True\<rparr>)"
  by (simp add: Send_def writePump_take_def new_Connection_def sendCh_cap_def)

section \<open>Key generation\<close>

text \<open>
  Whenever GenerateKeyPair succeeds, the public key it returns is the one
  PublicKeyFromPrivate derives from the private key it returns: both are X25519 of the
  private key and the base point.
\<close>

lemma GenerateKeyPair_consistent:
  "GenerateKeyPair L rnd = Inr (priv, pub) \<Longrightarrow> PublicKeyFromPrivate L priv = Inr pub"
  by (auto simp: GenerateKeyPair_def PublicKeyFromPrivate_def split: sum.splits)

lemma GenerateKeyPair_cases:
  "(\<exists>err. GenerateKeyPair L rnd = Inl err)
   \<or> (\<exists>priv pub. GenerateKeyPair L rnd = Inr (priv, pub) \<and> PublicKeyFromPrivate L priv = Inr pub)"
  by (cases "GenerateKeyPair L rnd") (auto dest: GenerateKeyPair_consistent)

text \<open>
  The paths of the command that check the error (\<open>-derive\<close>, \<open>-client\<close>, \<open>-node\<close>) print
  either no key and exit with 1, or one private key followed by its public key. With no flag,
  two successful generations print consistent keys as well.
\<close>

lemma keygen_checked_paths:
  assumes "privKeyHex args \<noteq> None \<or> genClient args \<or> genNode args"
  shows "(snd (keygen_main L args rnd1 rnd2) = 1 \<and> keys_of (fst (keygen_main L args rnd1 rnd2)) = [])
       \<or> (\<exists>priv pub. snd (keygen_main L args rnd1 rnd2) = 0
             \<and> keys_of (fst (keygen_main L args rnd1 rnd2)) = [priv, pub]
             \<and> PublicKeyFromPrivate L priv = Inr pub)"
  using assms GenerateKeyPair_cases [of L rnd1]
  by (auto simp: keygen_main_def split: option.splits sum.splits)

lemma keygen_default_path_ok:
  assumes "privKeyHex args = None" and "\<not> genClient args" and "\<not> genNode args"
    and "GenerateKeyPair L rnd1 = Inr (nodePriv, nodePub)"
    and "GenerateKeyPair L rnd2 = Inr (clientPriv, clientPub)"
  shows "snd (keygen_main L args rnd1 rnd2) = 0
       \<and> keys_of (fst (keygen_main L args rnd1 rnd2)) =
           [nodePriv, nodePub, clientPub, clientPriv, nodePub]
       \<and> PublicKeyFromPrivate L nodePriv = Inr nodePub
       \<and> PublicKeyFromPrivate L clientPriv = Inr clientPub"
  using assms GenerateKeyPair_consistent [of L rnd1] GenerateKeyPair_consistent [of L rnd2]
  by (simp add: keygen_main_def)

text \<open>
  With no flag the error of GenerateKeyPair is dropped: when the first call fails, the zero
  private key is printed with the zero public key, and the exit code is 0.
\<close>

lemma keygen_default_path_unchecked:
  assumes "privKeyHex args = None" and "\<not> genClient args" and "\<not> genNode args"
    and "GenerateKeyPair L rnd1 = Inl err"
  shows "\<exists>out. keygen_main L args rnd1 rnd2 =
           (Line ''=== Generating new key pairs ==='' # Line [] # Line ''# .env.node'' #
            KeyLine ''NODE_PRIVATE_KEY='' 0 # KeyLine ''NODE_PUBLIC_KEY='' 0 # out, 0)"
  using assms by (simp add: keygen_main_def split: sum.splits prod.splits)


end
